theory Spec2Isabelle
  imports Main "HOL-Library.Sublist"
begin

section \<open>The Valohai hook of the Airflow plugin\<close>

text \<open>
  A shallow embedding of \<^verbatim>\<open>airflow_valohai_plugin/hooks/valohai_hook.py\<close>. The hook is
  sequential glue code around a REST API: every method issues one HTTP request and reads
  the JSON answer, \<^verbatim>\<open>submit_execution\<close> chains them and polls until the execution
  reaches a final status, \<^verbatim>\<open>download_execution_outputs\<close> retrieves the outputs of a
  finished execution.

  The model makes the effects explicit. Everything the code does to the outside (HTTP
  requests, sleeping, downloads, log lines) is appended to a trace of events, in program
  order. What the outside answers is an argument: a \<open>server\<close> record holds the JSON
  answer of each endpoint, and the answers of the details endpoint are a sequence indexed
  by the number of the poll. Exceptions are values of the type \<open>error\<close>.
\<close>

subsection \<open>Values and payloads\<close>

text \<open>
  Identifiers (of projects, repositories, executions, commits) are JSON scalars, and
  Python's \<^verbatim>\<open>None\<close> flows where a lookup finds nothing. On these values Python's
  \<^verbatim>\<open>==\<close> is structural equality. Names, refs, statuses and URLs are strings.
\<close>

datatype pyval = PyNone | PyStr string | PyInt int

record project =
  project_id :: pyval
  project_name :: string

record repository =
  repository_id :: pyval
  repository_project_id :: pyval  \<comment> \<open>\<^verbatim>\<open>repository['project']['id']\<close>\<close>

record commit =
  commit_repository :: pyval
  commit_ref :: string
  commit_identifier :: pyval

record execution_output =
  output_name :: string
  output_url :: string

record execution_details =
  details_id :: pyval
  status :: string
  outputs :: "execution_output list"
  details_display :: string  \<comment> \<open>\<^verbatim>\<open>urls.display\<close>\<close>

text \<open>The answer to the POST that creates an execution.\<close>

record created =
  created_id :: pyval
  created_display :: string  \<comment> \<open>\<^verbatim>\<open>response.json()['urls']['display']\<close>\<close>

text \<open>The payload of that POST: the dict built at lines 199 to 206.\<close>

record payload =
  payload_project :: pyval
  payload_commit :: pyval
  payload_step :: string
  payload_inputs :: "(string \<times> pyval) list"
  payload_parameters :: "(string \<times> pyval) list"
  payload_environment :: pyval

subsection \<open>The status vocabulary (lines 20 to 35)\<close>

definition incomplete_execution_statuses :: "string set" where
  "incomplete_execution_statuses = {''created'', ''queued'', ''started'', ''stopping''}"

definition fail_execution_statuses :: "string set" where
  "fail_execution_statuses = {''error'', ''crashed'', ''stopped''}"

definition success_execution_statuses :: "string set" where
  "success_execution_statuses = {''complete''}"

subsection \<open>Effects: the trace, the server, errors\<close>

datatype http_method = GET | POST

text \<open>
  The endpoint templates of lines 12 to 18; the three templates with a placeholder carry
  the value formatted into it.
\<close>

datatype endpoint =
    LIST_PROJECTS_ENDPOINT
  | LIST_REPOSITORIES_ENDPOINT
  | LIST_COMMITS_ENDPOINT
  | SUBMIT_EXECUTION_ENDPOINT
  | GET_EXECUTION_DETAILS_ENDPOINT pyval
  | FETCH_REPOSITORY_ENDPOINT pyval
  | SET_EXECUTION_TAGS_ENDPOINT pyval

type_synonym headers = "(string \<times> string) list"

datatype body =
    NoBody
  | Params "(string \<times> pyval) list"  \<comment> \<open>\<^verbatim>\<open>params=...\<close>\<close>
  | JsonPayload payload  \<comment> \<open>\<^verbatim>\<open>json=payload\<close>\<close>
  | JsonTags "string list"  \<comment> \<open>\<^verbatim>\<open>json={'tags': tags}\<close>\<close>

text \<open>The calls of \<^verbatim>\<open>logging.info\<close>, one constructor for each, with the values formatted.\<close>

datatype logmsg =
    IgnoreOutput string string  \<comment> \<open>line 58: output name, pattern\<close>
  | DownloadedOutput string  \<comment> \<open>line 64\<close>
  | UsingTokenAuthorization  \<comment> \<open>line 76\<close>
  | FetchedLatestCommits string  \<comment> \<open>line 191\<close>
  | UsingLatestCommit string pyval  \<comment> \<open>line 193: branch, commit\<close>
  | GotResponse created  \<comment> \<open>line 213\<close>
  | StartedExecution string  \<comment> \<open>line 217\<close>
  | AddedExecutionTags "string list"  \<comment> \<open>line 221\<close>
  | IncompleteExecution string  \<comment> \<open>line 229\<close>
  | ExecutionCompleted  \<comment> \<open>line 234\<close>

datatype event =
    Request http_method string endpoint headers body  \<comment> \<open>method, host, endpoint, headers, body\<close>
  | Sleep int
  | Urlretrieve string string  \<comment> \<open>URL, target file\<close>
  | LogInfo logmsg

text \<open>
  What the server answers. Every endpoint but the details one is requested at most once
  in a run of \<^verbatim>\<open>submit_execution\<close>; the details endpoint is polled, so its answers are
  a sequence. The answers to the fetch and the tags requests are only logged or dropped,
  and are carried as text.
\<close>

record server =
  projects_results :: "project list"
  repositories_results :: "repository list"
  commits_results :: "commit list"
  fetch_answer :: string
  submit_answer :: created
  tags_answer :: string
  details_answers :: "nat \<Rightarrow> execution_details"

datatype error =
    AttributeError string  \<comment> \<open>the attribute that is not set\<close>
  | AirflowException string  \<comment> \<open>the message\<close>
  | ValueError  \<comment> \<open>\<^verbatim>\<open>time.sleep\<close> of a negative length\<close>
  | TypeError  \<comment> \<open>subscripting \<^verbatim>\<open>None\<close>\<close>
  | ReError  \<comment> \<open>\<^verbatim>\<open>re.error\<close>: the pattern does not compile\<close>

subsection \<open>The hook object and its constructor (lines 71 to 79)\<close>

text \<open>
  An attribute that was never assigned is \<open>None\<close> here; reading it raises
  \<^verbatim>\<open>AttributeError\<close>. The connection comes from Airflow's connection store.
\<close>

record connection =
  conn_host :: string
  extra_dejson :: "string \<rightharpoonup> string"

record hook =
  host :: string
  headers :: "headers option"
  polling_period_seconds :: "int option"

definition ValohaiHook_init :: "connection \<Rightarrow> event list \<Rightarrow> hook \<times> event list" where
  "ValohaiHook_init valohai_conn tr =
     (case extra_dejson valohai_conn ''token'' of
        Some token \<Rightarrow>
          (\<lparr>host = conn_host valohai_conn,
            headers = Some [(''Authorization'', ''Token '' @ token)],
            polling_period_seconds = None\<rparr>,
           tr @ [LogInfo UsingTokenAuthorization])
      | None \<Rightarrow>
          (\<lparr>host = conn_host valohai_conn, headers = None, polling_period_seconds = None\<rparr>,
           tr))"

text \<open>
  Reading \<^verbatim>\<open>self.headers\<close>. The arguments of \<^verbatim>\<open>requests.get\<close> and
  \<^verbatim>\<open>requests.post\<close> are evaluated before the call, so a failing read raises before
  any request is issued.
\<close>

definition get_headers :: "hook \<Rightarrow> error + headers" where
  "get_headers h = (case headers h of None \<Rightarrow> Inl (AttributeError ''headers'') | Some hs \<Rightarrow> Inr hs)"

subsection \<open>The lookups (lines 81 to 141)\<close>

text \<open>
  The three \<^verbatim>\<open>for\<close> loops over \<^verbatim>\<open>response.json()['results']\<close>: return at the first
  match, and \<^verbatim>\<open>None\<close> when the loop runs out.
\<close>

fun find_project_id :: "project list \<Rightarrow> string \<Rightarrow> pyval" where
  "find_project_id [] name = PyNone"
| "find_project_id (project # rest) name =
     (if project_name project = name then project_id project else find_project_id rest name)"

fun find_repository_id :: "repository list \<Rightarrow> pyval \<Rightarrow> pyval" where
  "find_repository_id [] pid = PyNone"
| "find_repository_id (repository # rest) pid =
     (if repository_project_id repository = pid then repository_id repository
      else find_repository_id rest pid)"

fun find_latest_commit :: "commit list \<Rightarrow> pyval \<Rightarrow> string \<Rightarrow> pyval" where
  "find_latest_commit [] rid branch = PyNone"
| "find_latest_commit (commit # rest) rid branch =
     (if commit_repository commit = rid \<and> commit_ref commit = branch
      then commit_identifier commit
      else find_latest_commit rest rid branch)"

definition get_project_id ::
  "hook \<Rightarrow> server \<Rightarrow> string \<Rightarrow> event list \<Rightarrow> (error + pyval) \<times> event list" where
  "get_project_id h srv name tr =
     (case get_headers h of
        Inl e \<Rightarrow> (Inl e, tr)
      | Inr hs \<Rightarrow>
          (Inr (find_project_id (projects_results srv) name),
           tr @ [Request GET (host h) LIST_PROJECTS_ENDPOINT hs
                   (Params [(''limit'', PyInt 10000)])]))"

definition get_repository_id ::
  "hook \<Rightarrow> server \<Rightarrow> pyval \<Rightarrow> event list \<Rightarrow> (error + pyval) \<times> event list" where
  "get_repository_id h srv pid tr =
     (case get_headers h of
        Inl e \<Rightarrow> (Inl e, tr)
      | Inr hs \<Rightarrow>
          (Inr (find_repository_id (repositories_results srv) pid),
           tr @ [Request GET (host h) LIST_REPOSITORIES_ENDPOINT hs
                   (Params [(''limit'', PyInt 10000)])]))"

definition fetch_repository ::
  "hook \<Rightarrow> server \<Rightarrow> pyval \<Rightarrow> event list \<Rightarrow> (error + string) \<times> event list" where
  "fetch_repository h srv pid tr =
     (case get_headers h of
        Inl e \<Rightarrow> (Inl e, tr)
      | Inr hs \<Rightarrow>
          (Inr (fetch_answer srv),
           tr @ [Request POST (host h) (FETCH_REPOSITORY_ENDPOINT pid) hs NoBody]))"

definition get_latest_commit ::
  "hook \<Rightarrow> server \<Rightarrow> pyval \<Rightarrow> string \<Rightarrow> event list \<Rightarrow> (error + pyval) \<times> event list" where
  "get_latest_commit h srv pid branch tr =
     (case get_repository_id h srv pid tr of
        (Inl e, tr1) \<Rightarrow> (Inl e, tr1)
      | (Inr rid, tr1) \<Rightarrow>
          (case get_headers h of
             Inl e \<Rightarrow> (Inl e, tr1)
           | Inr hs \<Rightarrow>
               (Inr (find_latest_commit (commits_results srv) rid branch),
                tr1 @ [Request GET (host h) LIST_COMMITS_ENDPOINT hs
                         (Params [(''limit'', PyInt 10000),
                                  (''ordering'', PyStr ''-commit_time'')])])))"

subsection \<open>Execution details and tags (lines 143 to 166)\<close>

text \<open>The \<open>n\<close>-th request for the details gets the \<open>n\<close>-th answer, counting from 0.\<close>

definition get_execution_details ::
  "hook \<Rightarrow> server \<Rightarrow> pyval \<Rightarrow> nat \<Rightarrow> event list \<Rightarrow> (error + execution_details) \<times> event list"
  where
  "get_execution_details h srv eid n tr =
     (case get_headers h of
        Inl e \<Rightarrow> (Inl e, tr)
      | Inr hs \<Rightarrow>
          (Inr (details_answers srv n),
           tr @ [Request GET (host h) (GET_EXECUTION_DETAILS_ENDPOINT eid) hs NoBody]))"

definition add_execution_tags ::
  "hook \<Rightarrow> server \<Rightarrow> string list \<Rightarrow> pyval \<Rightarrow> event list \<Rightarrow> (error + string) \<times> event list"
  where
  "add_execution_tags h srv tags eid tr =
     (case get_headers h of
        Inl e \<Rightarrow> (Inl e, tr)
      | Inr hs \<Rightarrow>
          (Inr (tags_answer srv),
           tr @ [Request POST (host h) (SET_EXECUTION_TAGS_ENDPOINT eid) hs (JsonTags tags)]))"

subsection \<open>Submitting and polling (lines 168 to 237)\<close>

text \<open>
  Python's truth value of an optional string or list: \<^verbatim>\<open>None\<close> and the empty value
  are false. The tests \<^verbatim>\<open>if branch\<close>, \<^verbatim>\<open>if tags\<close> and \<^verbatim>\<open>if pattern\<close> use it.
\<close>

definition truthy :: "'a list option \<Rightarrow> bool" where
  "truthy x = (case x of None \<Rightarrow> False | Some xs \<Rightarrow> xs \<noteq> [])"

text \<open>
  The body of \<^verbatim>\<open>submit_execution\<close> up to the loop (lines 185 to 221): it returns the
  id of the execution it created. It is a definition of its own so that the requests
  issued before the loop can be stated whether or not the loop ends.
\<close>

definition submit_execution_start ::
  "hook \<Rightarrow> server \<Rightarrow> string \<Rightarrow> string \<Rightarrow> (string \<times> pyval) list \<Rightarrow> (string \<times> pyval) list \<Rightarrow>
   pyval \<Rightarrow> pyval \<Rightarrow> string option \<Rightarrow> string list option \<Rightarrow> int \<Rightarrow> event list \<Rightarrow>
   (error + pyval) \<times> hook \<times> event list" where
  "submit_execution_start h srv name step inputs parameters environment commit branch tags
     period tr =
     (let h1 = h\<lparr>polling_period_seconds := Some period\<rparr> in
      case get_project_id h1 srv name tr of
        (Inl e, tr1) \<Rightarrow> (Inl e, h1, tr1)
      | (Inr pid, tr1) \<Rightarrow>
          (case
             (if truthy branch then
                (case fetch_repository h1 srv pid tr1 of
                   (Inl e, tr2) \<Rightarrow> (Inl e, tr2)
                 | (Inr response, tr2) \<Rightarrow>
                     (case get_latest_commit h1 srv pid (the branch)
                             (tr2 @ [LogInfo (FetchedLatestCommits response)]) of
                        (Inl e, tr3) \<Rightarrow> (Inl e, tr3)
                      | (Inr latest, tr3) \<Rightarrow>
                          (Inr latest, tr3 @ [LogInfo (UsingLatestCommit (the branch) latest)])))
              else (Inr commit, tr1)) of
             (Inl e, tr4) \<Rightarrow> (Inl e, h1, tr4)
           | (Inr commit1, tr4) \<Rightarrow>
               (case get_headers h1 of
                  Inl e \<Rightarrow> (Inl e, h1, tr4)
                | Inr hs \<Rightarrow>
                    (let response = submit_answer srv;
                         tr5 = tr4 @
                           [Request POST (host h1) SUBMIT_EXECUTION_ENDPOINT hs
                              (JsonPayload
                                 \<lparr>payload_project = pid, payload_commit = commit1,
                                  payload_step = step, payload_inputs = inputs,
                                  payload_parameters = parameters,
                                  payload_environment = environment\<rparr>),
                            LogInfo (GotResponse response),
                            LogInfo (StartedExecution (created_display response))];
                         execution_id = created_id response
                     in if truthy tags then
                          (case add_execution_tags h1 srv (the tags) execution_id tr5 of
                             (Inl e, tr6) \<Rightarrow> (Inl e, h1, tr6)
                           | (Inr _, tr6) \<Rightarrow>
                               (Inr execution_id, h1,
                                tr6 @ [LogInfo (AddedExecutionTags (the tags))]))
                        else (Inr execution_id, h1, tr5)))))"

text \<open>
  One pass through the body of \<^verbatim>\<open>while True\<close> (lines 224 to 237); \<open>n\<close> counts the
  polls made so far. \<^verbatim>\<open>time.sleep\<close> raises on a negative length.
\<close>

datatype loop_outcome = Continue | Raise error | Return execution_details

definition poll_iteration ::
  "hook \<Rightarrow> server \<Rightarrow> pyval \<Rightarrow> int \<Rightarrow> nat \<Rightarrow> event list \<Rightarrow> loop_outcome \<times> event list" where
  "poll_iteration h srv eid period n tr =
     (if period < 0 then (Raise ValueError, tr)
      else
        (case get_execution_details h srv eid n (tr @ [Sleep period]) of
           (Inl e, tr1) \<Rightarrow> (Raise e, tr1)
         | (Inr details, tr1) \<Rightarrow>
             (let s = status details in
              if s \<in> incomplete_execution_statuses then
                (Continue, tr1 @ [LogInfo (IncompleteExecution s)])
              else if s \<in> fail_execution_statuses then
                (Raise (AirflowException (''Execution failed with status: '' @ s)), tr1)
              else if s \<in> success_execution_statuses then
                (Return details, tr1 @ [LogInfo ExecutionCompleted])
              else
                (Raise (AirflowException (''Found a not handled status: '' @ s)), tr1))))"

text \<open>The loop. It has no bound: \<open>None\<close> is the run that never leaves it.\<close>

partial_function (option) poll_loop ::
  "hook \<Rightarrow> server \<Rightarrow> pyval \<Rightarrow> int \<Rightarrow> nat \<Rightarrow> event list \<Rightarrow>
   ((error + execution_details) \<times> event list) option" where
  "poll_loop h srv eid period n tr =
     (case poll_iteration h srv eid period n tr of
        (Continue, tr1) \<Rightarrow> poll_loop h srv eid period (Suc n) tr1
      | (Raise e, tr1) \<Rightarrow> Some (Inl e, tr1)
      | (Return details, tr1) \<Rightarrow> Some (Inr details, tr1))"

definition submit_execution ::
  "hook \<Rightarrow> server \<Rightarrow> string \<Rightarrow> string \<Rightarrow> (string \<times> pyval) list \<Rightarrow> (string \<times> pyval) list \<Rightarrow>
   pyval \<Rightarrow> pyval \<Rightarrow> string option \<Rightarrow> string list option \<Rightarrow> int \<Rightarrow> event list \<Rightarrow>
   ((error + execution_details) \<times> hook \<times> event list) option" where
  "submit_execution h srv name step inputs parameters environment commit branch tags
     period tr =
     (case submit_execution_start h srv name step inputs parameters environment commit
             branch tags period tr of
        (Inl e, h1, tr1) \<Rightarrow> Some (Inl e, h1, tr1)
      | (Inr execution_id, h1, tr1) \<Rightarrow>
          map_option (\<lambda>(r, tr2). (r, h1, tr2)) (poll_loop h1 srv execution_id period 0 tr1))"

subsection \<open>Downloading outputs (lines 38 to 64)\<close>

text \<open>
  \<^verbatim>\<open>os.path.join\<close> of two components, as \<^verbatim>\<open>posixpath\<close> defines it.
\<close>

definition os_path_join :: "string \<Rightarrow> string \<Rightarrow> string" where
  "os_path_join a b =
     (if b \<noteq> [] \<and> hd b = CHR ''/'' then b
      else if a = [] \<or> last a = CHR ''/'' then a @ b
      else a @ ''/'' @ b)"

text \<open>
  The regular expression engine is Python's \<^verbatim>\<open>re\<close>, an argument here:
  \<open>re_match pattern string\<close> is \<open>Inr True\<close> when \<^verbatim>\<open>re.match\<close> returns a match object,
  \<open>Inr False\<close> when it returns \<^verbatim>\<open>None\<close>, and an error when it raises. The value of the
  earlier task comes from Airflow's XCom store, \<open>xcom_pull\<close>, which gives \<^verbatim>\<open>None\<close> when
  there is none.
\<close>

fun download_loop ::
  "(string \<Rightarrow> string \<Rightarrow> error + bool) \<Rightarrow> string \<Rightarrow> string option \<Rightarrow> execution_output list \<Rightarrow>
   event list \<Rightarrow> (error + unit) \<times> event list" where
  "download_loop re_match path pattern [] tr = (Inr (), tr)"
| "download_loop re_match path pattern (out # rest) tr =
     (case (if truthy pattern then
              (case re_match (the pattern) (output_name out) of
                 Inl e \<Rightarrow> Inl e
               | Inr matched \<Rightarrow> Inr (\<not> matched))
            else Inr False) of
        Inl e \<Rightarrow> (Inl e, tr)
      | Inr ignore \<Rightarrow>
          if ignore then
            download_loop re_match path pattern rest
              (tr @ [LogInfo (IgnoreOutput (output_name out) (the pattern))])
          else
            download_loop re_match path pattern rest
              (tr @ [Urlretrieve (output_url out) (os_path_join path (output_name out)),
                     LogInfo (DownloadedOutput (output_name out))]))"

definition download_execution_outputs ::
  "(string \<Rightarrow> string \<Rightarrow> error + bool) \<Rightarrow> (string \<Rightarrow> execution_details option) \<Rightarrow> string \<Rightarrow>
   string \<Rightarrow> string option \<Rightarrow> event list \<Rightarrow> (error + unit) \<times> event list" where
  "download_execution_outputs re_match xcom_pull task_id path pattern tr =
     (case xcom_pull task_id of
        None \<Rightarrow> (Inl TypeError, tr)
      | Some details \<Rightarrow> download_loop re_match path pattern (outputs details) tr)"

subsection \<open>Reading a trace\<close>

text \<open>
  Projections of a trace, used to state what a run did: the execution payloads it POSTed,
  the requests it issued, the files it retrieved and the outputs it logged as ignored.
\<close>

definition posted_payload :: "event \<Rightarrow> payload option" where
  "posted_payload e =
     (case e of
        Request m _ ep _ b \<Rightarrow>
          (case (m, ep, b) of
             (POST, SUBMIT_EXECUTION_ENDPOINT, JsonPayload p) \<Rightarrow> Some p
           | _ \<Rightarrow> None)
      | _ \<Rightarrow> None)"

definition posted_payloads :: "event list \<Rightarrow> payload list" where
  "posted_payloads tr = List.map_filter posted_payload tr"

definition request_of :: "event \<Rightarrow> (http_method \<times> endpoint) option" where
  "request_of e = (case e of Request m _ ep _ _ \<Rightarrow> Some (m, ep) | _ \<Rightarrow> None)"

definition requests_of :: "event list \<Rightarrow> (http_method \<times> endpoint) list" where
  "requests_of tr = List.map_filter request_of tr"

definition retrieved :: "event \<Rightarrow> (string \<times> string) option" where
  "retrieved e = (case e of Urlretrieve url target \<Rightarrow> Some (url, target) | _ \<Rightarrow> None)"

definition downloads :: "event list \<Rightarrow> (string \<times> string) list" where
  "downloads tr = List.map_filter retrieved tr"

definition ignored_name :: "event \<Rightarrow> string option" where
  "ignored_name e = (case e of LogInfo (IgnoreOutput name _) \<Rightarrow> Some name | _ \<Rightarrow> None)"

definition ignored :: "event list \<Rightarrow> string list" where
  "ignored tr = List.map_filter ignored_name tr"

subsection \<open>Example data\<close>

text \<open>
  A hook with a token, and a server whose project listing is the one of the
  specification's example; \<open>statuses\<close> gives the status of each poll.
\<close>

definition example_hook :: hook where
  "example_hook =
     \<lparr>host = ''app.valohai.com'',
      headers = Some [(''Authorization'', ''Token secret'')],
      polling_period_seconds = None\<rparr>"

definition example_outputs :: "execution_output list" where
  "example_outputs =
     [\<lparr>output_name = ''model.pkl'', output_url = ''https://s3/model.pkl''\<rparr>,
      \<lparr>output_name = ''log.txt'', output_url = ''https://s3/log.txt''\<rparr>]"

definition example_details :: "string \<Rightarrow> execution_details" where
  "example_details s =
     \<lparr>details_id = PyStr ''e1'', status = s, outputs = example_outputs,
      details_display = ''https://app.valohai.com/e1''\<rparr>"

definition example_server :: "(nat \<Rightarrow> string) \<Rightarrow> server" where
  "example_server statuses =
     \<lparr>projects_results =
        [\<lparr>project_id = PyInt 1, project_name = ''a''\<rparr>,
         \<lparr>project_id = PyInt 2, project_name = ''b''\<rparr>],
      repositories_results =
        [\<lparr>repository_id = PyInt 7, repository_project_id = PyInt 1\<rparr>,
         \<lparr>repository_id = PyInt 8, repository_project_id = PyInt 2\<rparr>],
      commits_results =
        [\<lparr>commit_repository = PyInt 7, commit_ref = ''master'', commit_identifier = PyStr ''c4''\<rparr>,
         \<lparr>commit_repository = PyInt 8, commit_ref = ''dev'', commit_identifier = PyStr ''c3''\<rparr>,
         \<lparr>commit_repository = PyInt 8, commit_ref = ''master'', commit_identifier = PyStr ''c2''\<rparr>,
         \<lparr>commit_repository = PyInt 8, commit_ref = ''master'', commit_identifier = PyStr ''c1''\<rparr>],
      fetch_answer = ''{}'',
      submit_answer = \<lparr>created_id = PyStr ''e1'', created_display = ''https://app.valohai.com/e1''\<rparr>,
      tags_answer = ''{}'',
      details_answers = (\<lambda>n. example_details (statuses n))\<rparr>"

text \<open>
  A stand-in for \<^verbatim>\<open>re.match\<close> on the two patterns the examples use: \<^verbatim>\<open>^model\<close>, which
  matches the strings that start with \<^verbatim>\<open>model\<close>, and \<^verbatim>\<open>*model\<close>, which does not compile
  (a repetition with nothing to repeat), so that \<^verbatim>\<open>re.match\<close> raises \<^verbatim>\<open>re.error\<close>. It
  is used at no other pattern.
\<close>

definition example_re_match :: "string \<Rightarrow> string \<Rightarrow> error + bool" where
  "example_re_match pattern s =
     (if pattern = ''^model'' then Inr (prefix ''model'' s) else Inl ReError)"

text \<open>An XCom store that holds the details of the task \<^verbatim>\<open>train\<close>.\<close>

definition example_xcom_pull :: "string \<Rightarrow> execution_details option" where
  "example_xcom_pull task_id =
     (if task_id = ''train'' then Some (example_details ''complete'') else None)"

section \<open>Properties\<close>

subsection \<open>The lookups\<close>

lemma find_project_id_first:
  "i < length ps \<Longrightarrow> project_name (ps ! i) = q \<Longrightarrow> \<forall>j<i. project_name (ps ! j) \<noteq> q \<Longrightarrow>
   find_project_id ps q = project_id (ps ! i)"
proof (induction ps arbitrary: i)
  case Nil
  then show ?case by simp
next
  case (Cons p ps)
  show ?case
  proof (cases i)
    case 0
    with Cons.prems show ?thesis by simp
  next
    case (Suc k)
    with Cons.prems have "project_name p \<noteq> q" by auto
    moreover have "find_project_id ps q = project_id (ps ! k)"
      using Cons.prems Suc by (intro Cons.IH) auto
    ultimately show ?thesis using Suc by simp
  qed
qed

lemma find_project_id_none:
  "\<forall>p\<in>set ps. project_name p \<noteq> q \<Longrightarrow> find_project_id ps q = PyNone"
  by (induction ps) auto

lemma get_project_id_result:
  "headers h = Some hs \<Longrightarrow>
   get_project_id h srv q tr =
     (Inr (find_project_id (projects_results srv) q),
      tr @ [Request GET (host h) LIST_PROJECTS_ENDPOINT hs (Params [(''limit'', PyInt 10000)])])"
  by (simp add: get_project_id_def get_headers_def)

text \<open>
  C6. For every project listing and query name, \<^verbatim>\<open>get_project_id\<close> (on a hook that has
  its headers, so that the request is issued) returns the id of the first entry of the
  listing whose name equals the query, and \<^verbatim>\<open>None\<close> when no entry has that name.
\<close>

theorem get_project_id_first_match:
  assumes "headers h = Some hs"
  shows "(\<forall>i<length (projects_results srv).
            project_name (projects_results srv ! i) = q \<and>
            (\<forall>j<i. project_name (projects_results srv ! j) \<noteq> q) \<longrightarrow>
            fst (get_project_id h srv q tr) = Inr (project_id (projects_results srv ! i))) \<and>
         ((\<forall>p\<in>set (projects_results srv). project_name p \<noteq> q) \<longrightarrow>
            fst (get_project_id h srv q tr) = Inr PyNone)"
  using assms
  by (simp add: get_project_id_result find_project_id_first find_project_id_none)

text \<open>
  The example of the specification: in the listing of ids 1 and 2 with names a and b, the
  query b gives 2 and the query c gives nothing.
\<close>

theorem get_project_id_first_match_witness:
  "fst (get_project_id example_hook (example_server (\<lambda>n. ''complete'')) ''b'' []) = Inr (PyInt 2) \<and>
   fst (get_project_id example_hook (example_server (\<lambda>n. ''complete'')) ''c'' []) = Inr PyNone"
proof -
  let ?hs = "[(''Authorization'', ''Token secret'')]"
  let ?srv = "example_server (\<lambda>n. ''complete'')"
  have h: "headers example_hook = Some ?hs" by (simp add: example_hook_def)
  have found: "fst (get_project_id example_hook ?srv ''b'' []) = Inr (PyInt 2)"
    using get_project_id_first_match [OF h, of ?srv "''b''" "[]", THEN conjunct1, rule_format, of 1]
    by (simp add: example_server_def)
  have absent: "fst (get_project_id example_hook ?srv ''c'' []) = Inr PyNone"
    using get_project_id_first_match [OF h, of ?srv "''c''" "[]", THEN conjunct2]
    by (simp add: example_server_def)
  from found absent show ?thesis by simp
qed

subsection \<open>The poll loop\<close>

lemma poll_iteration_status:
  assumes "headers h = Some hs" "0 \<le> period"
  shows "poll_iteration h srv eid period n tr =
     (let details = details_answers srv n; s = status details;
          tr1 = tr @ [Sleep period,
                      Request GET (host h) (GET_EXECUTION_DETAILS_ENDPOINT eid) hs NoBody]
      in if s \<in> incomplete_execution_statuses then
           (Continue, tr1 @ [LogInfo (IncompleteExecution s)])
         else if s \<in> fail_execution_statuses then
           (Raise (AirflowException (''Execution failed with status: '' @ s)), tr1)
         else if s \<in> success_execution_statuses then
           (Return details, tr1 @ [LogInfo ExecutionCompleted])
         else (Raise (AirflowException (''Found a not handled status: '' @ s)), tr1))"
  using assms
  by (simp add: poll_iteration_def get_execution_details_def get_headers_def Let_def)

lemma poll_loop_skips_incomplete:
  assumes "headers h = Some hs" "0 \<le> period"
  shows "\<forall>i<k. status (details_answers srv (n + i)) \<in> incomplete_execution_statuses \<Longrightarrow>
     \<exists>tr1. poll_loop h srv eid period n tr = poll_loop h srv eid period (n + k) tr1"
proof (induction k arbitrary: n tr)
  case 0
  then show ?case by auto
next
  case (Suc k)
  from Suc.prems have s0: "status (details_answers srv n) \<in> incomplete_execution_statuses"
    by (metis add.right_neutral zero_less_Suc)
  have rest: "\<forall>i<k. status (details_answers srv (Suc n + i)) \<in> incomplete_execution_statuses"
    using Suc.prems by (metis Suc_less_eq add_Suc_shift)
  obtain tr0 where step: "poll_iteration h srv eid period n tr = (Continue, tr0)"
    using assms s0 by (simp add: poll_iteration_status Let_def)
  from Suc.IH[OF rest, of tr0] obtain tr1 where
    "poll_loop h srv eid period (Suc n) tr0 = poll_loop h srv eid period (Suc n + k) tr1" by blast
  then show ?case using step by (subst poll_loop.simps) auto
qed

lemma poll_loop_returns_leaves:
  assumes "poll_loop h srv eid period n tr = Some y"
  shows "headers h = None \<or> period < 0 \<or>
         (\<exists>i\<ge>n. status (details_answers srv i) \<notin> incomplete_execution_statuses)"
  using assms
proof (induction rule: poll_loop.raw_induct[rotated 1, consumes 1])
  case (1 loop h srv eid period n tr y)
  show ?case
  proof (cases "poll_iteration h srv eid period n tr")
    case (Pair out tr1)
    show ?thesis
    proof (cases out)
      case Continue
      with 1 Pair have "headers h = None \<or> period < 0 \<or>
         (\<exists>i\<ge>Suc n. status (details_answers srv i) \<notin> incomplete_execution_statuses)"
        by simp
      then show ?thesis using Suc_leD by blast
    next
      case (Raise e)
      with Pair show ?thesis
        by (auto simp: poll_iteration_def get_execution_details_def get_headers_def Let_def
            split: if_splits option.splits)
    next
      case (Return d)
      with Pair show ?thesis
        by (auto simp: poll_iteration_def get_execution_details_def get_headers_def Let_def
            split: if_splits option.splits)
    qed
  qed
qed

lemma poll_loop_never_returns:
  assumes "headers h = Some hs" "0 \<le> period"
    and "\<forall>i\<ge>n. status (details_answers srv i) \<in> incomplete_execution_statuses"
  shows "poll_loop h srv eid period n tr = None"
proof (cases "poll_loop h srv eid period n tr")
  case None
  then show ?thesis .
next
  case (Some y)
  from poll_loop_returns_leaves[OF Some] assms show ?thesis by auto
qed

lemma submit_execution_start_ok:
  assumes "headers h = Some hs"
  shows "\<exists>tr1. submit_execution_start h srv name step inputs parameters environment commit
           branch tags period tr =
         (Inr (created_id (submit_answer srv)), h\<lparr>polling_period_seconds := Some period\<rparr>, tr1)"
  using assms
  by (simp add: submit_execution_start_def get_project_id_def fetch_repository_def
      get_latest_commit_def get_repository_id_def add_execution_tags_def get_headers_def Let_def)

lemma submit_execution_polls:
  assumes "headers h = Some hs"
  shows "\<exists>tr1. submit_execution h srv name step inputs parameters environment commit branch tags
           period tr =
         map_option (\<lambda>(r, tr2). (r, h\<lparr>polling_period_seconds := Some period\<rparr>, tr2))
           (poll_loop (h\<lparr>polling_period_seconds := Some period\<rparr>) srv
              (created_id (submit_answer srv)) period 0 tr1)"
proof -
  from submit_execution_start_ok[OF assms] obtain tr1 where
    "submit_execution_start h srv name step inputs parameters environment commit
           branch tags period tr =
         (Inr (created_id (submit_answer srv)), h\<lparr>polling_period_seconds := Some period\<rparr>, tr1)"
    by blast
  then show ?thesis by (auto simp: submit_execution_def)
qed

lemma submit_execution_reaches:
  assumes "headers h = Some hs" "0 \<le> period"
    and "\<forall>i<k. status (details_answers srv i) \<in> incomplete_execution_statuses"
  shows "\<exists>tr1. submit_execution h srv name step inputs parameters environment commit branch tags
           period tr =
         (case poll_iteration (h\<lparr>polling_period_seconds := Some period\<rparr>) srv
                 (created_id (submit_answer srv)) period k tr1 of
            (Continue, tr2) \<Rightarrow>
              map_option (\<lambda>(r, tr3). (r, h\<lparr>polling_period_seconds := Some period\<rparr>, tr3))
                (poll_loop (h\<lparr>polling_period_seconds := Some period\<rparr>) srv
                   (created_id (submit_answer srv)) period (Suc k) tr2)
          | (Raise e, tr2) \<Rightarrow> Some (Inl e, h\<lparr>polling_period_seconds := Some period\<rparr>, tr2)
          | (Return details, tr2) \<Rightarrow>
              Some (Inr details, h\<lparr>polling_period_seconds := Some period\<rparr>, tr2))"
proof -
  let ?h = "h\<lparr>polling_period_seconds := Some period\<rparr>"
  let ?eid = "created_id (submit_answer srv)"
  have hs: "headers ?h = Some hs" using assms(1) by simp
  from submit_execution_polls[OF assms(1)] obtain tr0 where
    sub: "submit_execution h srv name step inputs parameters environment commit branch tags
           period tr =
         map_option (\<lambda>(r, tr2). (r, ?h, tr2)) (poll_loop ?h srv ?eid period 0 tr0)"
    by blast
  from assms(3) have "\<forall>i<k. status (details_answers srv (0 + i)) \<in> incomplete_execution_statuses"
    by simp
  from poll_loop_skips_incomplete[OF hs assms(2) this, of ?eid tr0] obtain tr1 where
    skip: "poll_loop ?h srv ?eid period 0 tr0 = poll_loop ?h srv ?eid period k tr1"
    by auto
  have "poll_loop ?h srv ?eid period k tr1 =
     (case poll_iteration ?h srv ?eid period k tr1 of
        (Continue, tr2) \<Rightarrow> poll_loop ?h srv ?eid period (Suc k) tr2
      | (Raise e, tr2) \<Rightarrow> Some (Inl e, tr2)
      | (Return details, tr2) \<Rightarrow> Some (Inr details, tr2))"
    by (rule poll_loop.simps)
  with sub skip show ?thesis
    by (intro exI[of _ tr1]) (auto split: prod.splits loop_outcome.splits)
qed

lemma sublist_append_left: "sublist s (p @ s)"
  using sublist_appendI[of s p "[]"] by simp

lemma fail_not_incomplete:
  "s \<in> fail_execution_statuses \<Longrightarrow> s \<notin> incomplete_execution_statuses"
  by (auto simp: fail_execution_statuses_def incomplete_execution_statuses_def)

lemma success_not_incomplete:
  "s \<in> success_execution_statuses \<Longrightarrow> s \<notin> incomplete_execution_statuses"
  by (auto simp: success_execution_statuses_def incomplete_execution_statuses_def)

lemma success_not_fail:
  "s \<in> success_execution_statuses \<Longrightarrow> s \<notin> fail_execution_statuses"
  by (auto simp: success_execution_statuses_def fail_execution_statuses_def)

text \<open>
  C1. For every status \<open>s\<close> of the fail set: when the poll loop of \<^verbatim>\<open>submit_execution\<close>
  fetches details with that status (the \<open>k\<close> polls before it were all incomplete, the
  hook has its headers and the polling period is not negative, so that the loop gets
  there), the call raises an \<^verbatim>\<open>AirflowException\<close> whose message contains \<open>s\<close>; it
  returns no value.
\<close>

theorem submit_execution_fail_status:
  assumes "headers h = Some hs" and "0 \<le> period"
    and "\<forall>i<k. status (details_answers srv i) \<in> incomplete_execution_statuses"
    and "status (details_answers srv k) = s"
    and "s \<in> fail_execution_statuses"
  shows "\<exists>h1 tr1 msg.
           submit_execution h srv name step inputs parameters environment commit branch tags
             period tr = Some (Inl (AirflowException msg), h1, tr1) \<and>
           msg = ''Execution failed with status: '' @ s \<and> sublist s msg"
proof -
  let ?h = "h\<lparr>polling_period_seconds := Some period\<rparr>"
  have hs: "headers ?h = Some hs" using assms(1) by simp
  from submit_execution_reaches[OF assms(1-3)] obtain tr1 where
    run: "submit_execution h srv name step inputs parameters environment commit branch tags
           period tr =
         (case poll_iteration ?h srv (created_id (submit_answer srv)) period k tr1 of
            (Continue, tr2) \<Rightarrow>
              map_option (\<lambda>(r, tr3). (r, ?h, tr3))
                (poll_loop ?h srv (created_id (submit_answer srv)) period (Suc k) tr2)
          | (Raise e, tr2) \<Rightarrow> Some (Inl e, ?h, tr2)
          | (Return details, tr2) \<Rightarrow> Some (Inr details, ?h, tr2))"
    by blast
  have "s \<notin> incomplete_execution_statuses" using assms(5) by (rule fail_not_incomplete)
  with assms(4,5) have "\<exists>tr2. submit_execution h srv name step inputs parameters environment
      commit branch tags period tr =
      Some (Inl (AirflowException (''Execution failed with status: '' @ s)), ?h, tr2)"
    unfolding run by (simp add: poll_iteration_status[OF hs assms(2)] Let_def)
  then show ?thesis using sublist_append_left by blast
qed

text \<open>
  C2. When the poll loop of \<^verbatim>\<open>submit_execution\<close> fetches details whose status is in
  the success set, the loop ends and the call returns exactly these details.
\<close>

theorem submit_execution_success_status:
  assumes "headers h = Some hs" and "0 \<le> period"
    and "\<forall>i<k. status (details_answers srv i) \<in> incomplete_execution_statuses"
    and "status (details_answers srv k) \<in> success_execution_statuses"
  shows "\<exists>h1 tr1.
           submit_execution h srv name step inputs parameters environment commit branch tags
             period tr = Some (Inr (details_answers srv k), h1, tr1)"
proof -
  let ?h = "h\<lparr>polling_period_seconds := Some period\<rparr>"
  have hs: "headers ?h = Some hs" using assms(1) by simp
  from submit_execution_reaches[OF assms(1-3)] obtain tr1 where
    run: "submit_execution h srv name step inputs parameters environment commit branch tags
           period tr =
         (case poll_iteration ?h srv (created_id (submit_answer srv)) period k tr1 of
            (Continue, tr2) \<Rightarrow>
              map_option (\<lambda>(r, tr3). (r, ?h, tr3))
                (poll_loop ?h srv (created_id (submit_answer srv)) period (Suc k) tr2)
          | (Raise e, tr2) \<Rightarrow> Some (Inl e, ?h, tr2)
          | (Return details, tr2) \<Rightarrow> Some (Inr details, ?h, tr2))"
    by blast
  from assms(4) show ?thesis
    unfolding run
    by (simp add: poll_iteration_status[OF hs assms(2)] Let_def success_not_incomplete
        success_not_fail)
qed

text \<open>
  C3. For every status \<open>s\<close> outside the three sets: when the poll loop of
  \<^verbatim>\<open>submit_execution\<close> fetches details with that status, the call raises an
  \<^verbatim>\<open>AirflowException\<close>; it neither returns nor polls again: the request that fetched
  the status is the last event of the run.
\<close>

theorem submit_execution_unknown_status:
  assumes "headers h = Some hs" and "0 \<le> period"
    and "\<forall>i<k. status (details_answers srv i) \<in> incomplete_execution_statuses"
    and "status (details_answers srv k) = s"
    and "s \<notin> incomplete_execution_statuses"
    and "s \<notin> fail_execution_statuses"
    and "s \<notin> success_execution_statuses"
  shows "\<exists>h1 tr0.
           submit_execution h srv name step inputs parameters environment commit branch tags
             period tr =
           Some (Inl (AirflowException (''Found a not handled status: '' @ s)), h1,
                 tr0 @ [Sleep period,
                        Request GET (host h) (GET_EXECUTION_DETAILS_ENDPOINT
                          (created_id (submit_answer srv))) hs NoBody])"
proof -
  let ?h = "h\<lparr>polling_period_seconds := Some period\<rparr>"
  have hs: "headers ?h = Some hs" using assms(1) by simp
  from submit_execution_reaches[OF assms(1-3)] obtain tr1 where
    run: "submit_execution h srv name step inputs parameters environment commit branch tags
           period tr =
         (case poll_iteration ?h srv (created_id (submit_answer srv)) period k tr1 of
            (Continue, tr2) \<Rightarrow>
              map_option (\<lambda>(r, tr3). (r, ?h, tr3))
                (poll_loop ?h srv (created_id (submit_answer srv)) period (Suc k) tr2)
          | (Raise e, tr2) \<Rightarrow> Some (Inl e, ?h, tr2)
          | (Return details, tr2) \<Rightarrow> Some (Inr details, ?h, tr2))"
    by blast
  from assms(4-7) show ?thesis
    unfolding run
    by (simp add: poll_iteration_status[OF hs assms(2)] Let_def)
qed

text \<open>Two polls see \<^verbatim>\<open>started\<close>, the third sees \<^verbatim>\<open>crashed\<close>.\<close>

theorem submit_execution_fail_status_witness:
  "\<exists>h1 tr1.
     submit_execution example_hook
       (example_server (\<lambda>n. if n < 2 then ''started'' else ''crashed''))
       ''b'' ''train'' [] [] PyNone (PyStr ''c0'') (Some ''master'') (Some [''nightly'']) 30 [] =
     Some (Inl (AirflowException ''Execution failed with status: crashed''), h1, tr1)"
proof -
  have h: "headers example_hook = Some [(''Authorization'', ''Token secret'')]"
    by (simp add: example_hook_def)
  show ?thesis
    using submit_execution_fail_status [OF h,
        of 30 2 "example_server (\<lambda>n. if n < 2 then ''started'' else ''crashed'')" "''crashed''"
          "''b''" "''train''" "[]" "[]" PyNone "PyStr ''c0''" "Some ''master''"
          "Some [''nightly'']" "[]"]
    by (simp add: example_server_def example_details_def incomplete_execution_statuses_def
        fail_execution_statuses_def)
qed

text \<open>Three polls see \<^verbatim>\<open>queued\<close>, the fourth sees \<^verbatim>\<open>complete\<close>.\<close>

theorem submit_execution_success_status_witness:
  "\<exists>h1 tr1.
     submit_execution example_hook
       (example_server (\<lambda>n. if n < 3 then ''queued'' else ''complete''))
       ''b'' ''train'' [] [] PyNone (PyStr ''c0'') None None 30 [] =
     Some (Inr (example_details ''complete''), h1, tr1)"
proof -
  have h: "headers example_hook = Some [(''Authorization'', ''Token secret'')]"
    by (simp add: example_hook_def)
  show ?thesis
    using submit_execution_success_status [OF h,
        of 30 3 "example_server (\<lambda>n. if n < 3 then ''queued'' else ''complete'')"
          "''b''" "''train''" "[]" "[]" PyNone "PyStr ''c0''" None None "[]"]
    by (simp add: example_server_def example_details_def incomplete_execution_statuses_def
        success_execution_statuses_def)
qed

text \<open>The first poll sees \<^verbatim>\<open>unknown\<close>, the example of the specification.\<close>

theorem submit_execution_unknown_status_witness:
  "\<exists>h1 tr0.
     submit_execution example_hook (example_server (\<lambda>n. ''unknown''))
       ''b'' ''train'' [] [] PyNone (PyStr ''c0'') None None 30 [] =
     Some (Inl (AirflowException ''Found a not handled status: unknown''), h1,
           tr0 @ [Sleep 30,
                  Request GET ''app.valohai.com'' (GET_EXECUTION_DETAILS_ENDPOINT (PyStr ''e1''))
                    [(''Authorization'', ''Token secret'')] NoBody])"
proof -
  have h: "headers example_hook = Some [(''Authorization'', ''Token secret'')]"
    by (simp add: example_hook_def)
  show ?thesis
    using submit_execution_unknown_status [OF h,
        of 30 0 "example_server (\<lambda>n. ''unknown'')" "''unknown''"
          "''b''" "''train''" "[]" "[]" PyNone "PyStr ''c0''" None None "[]"]
    by (simp add: example_server_def example_details_def example_hook_def
        incomplete_execution_statuses_def fail_execution_statuses_def
        success_execution_statuses_def)
qed

lemma poll_iteration_extends:
  "poll_iteration h srv eid period n tr = (out, tr1) \<Longrightarrow> prefix tr tr1"
  by (auto simp: poll_iteration_def get_execution_details_def get_headers_def Let_def
      split: if_splits option.splits)

lemma poll_loop_extends:
  assumes "poll_loop h srv eid period n tr = Some y"
  shows "prefix tr (snd y)"
  using assms
proof (induction rule: poll_loop.raw_induct[rotated 1, consumes 1])
  case (1 loop h srv eid period n tr y)
  show ?case
  proof (cases "poll_iteration h srv eid period n tr")
    case (Pair out tr1)
    from poll_iteration_extends[OF Pair] have ext: "prefix tr tr1" .
    show ?thesis
    proof (cases out)
      case Continue
      with 1 Pair have "prefix tr1 (snd y)" by simp
      with ext show ?thesis by (rule prefix_order.trans)
    next
      case (Raise e)
      with 1(2) Pair ext show ?thesis by auto
    next
      case (Return d)
      with 1(2) Pair ext show ?thesis by auto
    qed
  qed
qed

text \<open>
  C4. For every status of the incomplete set: the iteration of the poll loop that fetches
  it raises nothing and continues, and the loop then runs the next iteration: its result
  is decided by the outcome of that iteration, which sleeps the polling period and
  requests the details again, so every run that ends has this second sleep and request in
  its trace. While every status is incomplete the loop never ends, and neither does
  \<^verbatim>\<open>submit_execution\<close>.
\<close>

theorem poll_incomplete_continues:
  assumes "headers h = Some hs" and "0 \<le> period"
  shows "(status (details_answers srv n) \<in> incomplete_execution_statuses \<longrightarrow>
            (let fetch = [Sleep period,
                          Request GET (host h) (GET_EXECUTION_DETAILS_ENDPOINT eid) hs NoBody];
                 tr1 = tr @ fetch @
                   [LogInfo (IncompleteExecution (status (details_answers srv n)))]
             in poll_iteration h srv eid period n tr = (Continue, tr1) \<and>
                poll_loop h srv eid period n tr = poll_loop h srv eid period (Suc n) tr1 \<and>
                poll_loop h srv eid period n tr =
                  (case poll_iteration h srv eid period (Suc n) tr1 of
                     (Continue, tr2) \<Rightarrow> poll_loop h srv eid period (Suc (Suc n)) tr2
                   | (Raise e, tr2) \<Rightarrow> Some (Inl e, tr2)
                   | (Return details, tr2) \<Rightarrow> Some (Inr details, tr2)) \<and>
                prefix (tr1 @ fetch) (snd (poll_iteration h srv eid period (Suc n) tr1)) \<and>
                (\<forall>res tr3. poll_loop h srv eid period n tr = Some (res, tr3) \<longrightarrow>
                   prefix (tr1 @ fetch) tr3))) \<and>
         ((\<forall>i\<ge>n. status (details_answers srv i) \<in> incomplete_execution_statuses) \<longrightarrow>
            poll_loop h srv eid period n tr = None) \<and>
         ((\<forall>i. status (details_answers srv i) \<in> incomplete_execution_statuses) \<longrightarrow>
            submit_execution h srv name step inputs parameters environment commit branch tags
              period tr0 = None)"
proof (intro conjI impI)
  assume inc: "status (details_answers srv n) \<in> incomplete_execution_statuses"
  let ?fetch = "[Sleep period,
                 Request GET (host h) (GET_EXECUTION_DETAILS_ENDPOINT eid) hs NoBody]"
  let ?tr1 = "tr @ ?fetch @ [LogInfo (IncompleteExecution (status (details_answers srv n)))]"
  let ?next = "poll_iteration h srv eid period (Suc n) ?tr1"
  have step: "poll_iteration h srv eid period n tr = (Continue, ?tr1)"
    using inc by (simp add: poll_iteration_status[OF assms] Let_def)
  have loop: "poll_loop h srv eid period n tr = poll_loop h srv eid period (Suc n) ?tr1"
    by (subst poll_loop.simps) (simp add: step)
  have runs: "poll_loop h srv eid period n tr =
      (case ?next of
         (Continue, tr2) \<Rightarrow> poll_loop h srv eid period (Suc (Suc n)) tr2
       | (Raise e, tr2) \<Rightarrow> Some (Inl e, tr2)
       | (Return details, tr2) \<Rightarrow> Some (Inr details, tr2))"
    unfolding loop by (rule poll_loop.simps)
  have nxt: "prefix (?tr1 @ ?fetch) (snd ?next)"
    by (simp add: poll_iteration_status[OF assms] Let_def prefix_def)
  have ends: "\<forall>res tr3. poll_loop h srv eid period n tr = Some (res, tr3) \<longrightarrow>
      prefix (?tr1 @ ?fetch) tr3"
  proof (intro allI impI)
    fix res tr3
    assume ret: "poll_loop h srv eid period n tr = Some (res, tr3)"
    obtain out tr2 where it: "?next = (out, tr2)" by (cases ?next)
    with nxt have pre: "prefix (?tr1 @ ?fetch) tr2" by simp
    show "prefix (?tr1 @ ?fetch) tr3"
    proof (cases out)
      case Continue
      with ret it have "poll_loop h srv eid period (Suc (Suc n)) tr2 = Some (res, tr3)"
        unfolding runs by simp
      from poll_loop_extends[OF this] have "prefix tr2 tr3" by simp
      with pre show ?thesis by (rule prefix_order.trans)
    next
      case (Raise e)
      with ret it have "tr3 = tr2" unfolding runs by simp
      with pre show ?thesis by simp
    next
      case (Return d)
      with ret it have "tr3 = tr2" unfolding runs by simp
      with pre show ?thesis by simp
    qed
  qed
  from step loop runs nxt ends
  show "let fetch = ?fetch;
            tr1 = tr @ fetch @ [LogInfo (IncompleteExecution (status (details_answers srv n)))]
        in poll_iteration h srv eid period n tr = (Continue, tr1) \<and>
           poll_loop h srv eid period n tr = poll_loop h srv eid period (Suc n) tr1 \<and>
           poll_loop h srv eid period n tr =
             (case poll_iteration h srv eid period (Suc n) tr1 of
                (Continue, tr2) \<Rightarrow> poll_loop h srv eid period (Suc (Suc n)) tr2
              | (Raise e, tr2) \<Rightarrow> Some (Inl e, tr2)
              | (Return details, tr2) \<Rightarrow> Some (Inr details, tr2)) \<and>
           prefix (tr1 @ fetch) (snd (poll_iteration h srv eid period (Suc n) tr1)) \<and>
           (\<forall>res tr3. poll_loop h srv eid period n tr = Some (res, tr3) \<longrightarrow>
              prefix (tr1 @ fetch) tr3)"
    by (simp only: Let_def)
next
  assume "\<forall>i\<ge>n. status (details_answers srv i) \<in> incomplete_execution_statuses"
  with assms show "poll_loop h srv eid period n tr = None"
    by (rule poll_loop_never_returns)
next
  assume all: "\<forall>i. status (details_answers srv i) \<in> incomplete_execution_statuses"
  let ?h = "h\<lparr>polling_period_seconds := Some period\<rparr>"
  have hs: "headers ?h = Some hs" using assms(1) by simp
  from submit_execution_polls[OF assms(1)] obtain tr1 where
    sub: "submit_execution h srv name step inputs parameters environment commit branch tags
           period tr0 =
         map_option (\<lambda>(r, tr2). (r, ?h, tr2))
           (poll_loop ?h srv (created_id (submit_answer srv)) period 0 tr1)"
    by blast
  from all have "\<forall>i\<ge>0. status (details_answers srv i) \<in> incomplete_execution_statuses"
    by simp
  from poll_loop_never_returns[OF hs assms(2) this]
  show "submit_execution h srv name step inputs parameters environment commit branch tags
          period tr0 = None"
    by (simp add: sub)
qed

text \<open>
  A server that answers \<^verbatim>\<open>queued\<close> and then \<^verbatim>\<open>complete\<close>: the loop sleeps and fetches
  twice and returns. A server that answers \<^verbatim>\<open>queued\<close> for ever: the loop never returns.
\<close>

theorem poll_incomplete_continues_witness:
  "poll_iteration example_hook (example_server (\<lambda>n. if n = 0 then ''queued'' else ''complete''))
     (PyStr ''e1'') 30 0 [] =
     (Continue,
      [Sleep 30,
       Request GET ''app.valohai.com'' (GET_EXECUTION_DETAILS_ENDPOINT (PyStr ''e1''))
         [(''Authorization'', ''Token secret'')] NoBody,
       LogInfo (IncompleteExecution ''queued'')]) \<and>
   poll_loop example_hook (example_server (\<lambda>n. if n = 0 then ''queued'' else ''complete''))
     (PyStr ''e1'') 30 0 [] =
     Some (Inr (example_details ''complete''),
       [Sleep 30,
        Request GET ''app.valohai.com'' (GET_EXECUTION_DETAILS_ENDPOINT (PyStr ''e1''))
          [(''Authorization'', ''Token secret'')] NoBody,
        LogInfo (IncompleteExecution ''queued''),
        Sleep 30,
        Request GET ''app.valohai.com'' (GET_EXECUTION_DETAILS_ENDPOINT (PyStr ''e1''))
          [(''Authorization'', ''Token secret'')] NoBody,
        LogInfo ExecutionCompleted]) \<and>
   poll_loop example_hook (example_server (\<lambda>n. ''queued'')) (PyStr ''e1'') 30 0 [] = None \<and>
   submit_execution example_hook (example_server (\<lambda>n. ''queued''))
     ''b'' ''train'' [] [] PyNone (PyStr ''c0'') None None 30 [] = None"
proof -
  let ?srv = "example_server (\<lambda>n. ''queued'')"
  let ?srv2 = "example_server (\<lambda>n. if n = 0 then ''queued'' else ''complete'')"
  let ?get = "Request GET ''app.valohai.com'' (GET_EXECUTION_DETAILS_ENDPOINT (PyStr ''e1''))
         [(''Authorization'', ''Token secret'')] NoBody"
  have h: "headers example_hook = Some [(''Authorization'', ''Token secret'')]"
    by (simp add: example_hook_def)
  note run = poll_incomplete_continues [OF h,
        of 30 ?srv 0 "PyStr ''e1''" "[]"
          "''b''" "''train''" "[]" "[]" PyNone "PyStr ''c0''" None None "[]"]
  have p: "(0::int) \<le> 30" by simp
  note run2 = poll_incomplete_continues [OF h p,
        of ?srv2 0 "PyStr ''e1''" "[]"
          "''b''" "''train''" "[]" "[]" PyNone "PyStr ''c0''" None None "[]"]
  have inc: "status (details_answers ?srv2 0) \<in> incomplete_execution_statuses"
    by (simp add: example_server_def example_details_def incomplete_execution_statuses_def)
  have nxt: "poll_iteration example_hook ?srv2 (PyStr ''e1'') 30 (Suc 0)
      ([] @ [Sleep 30, Request GET (host example_hook)
                (GET_EXECUTION_DETAILS_ENDPOINT (PyStr ''e1''))
                [(''Authorization'', ''Token secret'')] NoBody] @
       [LogInfo (IncompleteExecution (status (details_answers ?srv2 0)))]) =
      (Return (example_details ''complete''),
       [Sleep 30, ?get, LogInfo (IncompleteExecution ''queued''), Sleep 30, ?get,
        LogInfo ExecutionCompleted])"
    by (simp add: poll_iteration_def get_execution_details_def get_headers_def Let_def
        example_server_def example_details_def example_hook_def
        incomplete_execution_statuses_def fail_execution_statuses_def
        success_execution_statuses_def)
  note first = run2 [THEN conjunct1, rule_format, OF inc, unfolded Let_def]
  have one: "poll_iteration example_hook ?srv2 (PyStr ''e1'') 30 0 [] =
     (Continue, [Sleep 30, ?get, LogInfo (IncompleteExecution ''queued'')])"
    using first [THEN conjunct1]
    by (simp add: example_server_def example_details_def example_hook_def)
  have ret: "poll_loop example_hook ?srv2 (PyStr ''e1'') 30 0 [] =
     Some (Inr (example_details ''complete''),
       [Sleep 30, ?get, LogInfo (IncompleteExecution ''queued''), Sleep 30, ?get,
        LogInfo ExecutionCompleted])"
    using first [THEN conjunct2, THEN conjunct2, THEN conjunct1, unfolded nxt]
    by simp
  have never: "poll_loop example_hook ?srv (PyStr ''e1'') 30 0 [] = None"
    using run [THEN conjunct2, THEN conjunct1]
    by (simp add: example_server_def example_details_def incomplete_execution_statuses_def)
  have whole: "submit_execution example_hook ?srv
     ''b'' ''train'' [] [] PyNone (PyStr ''c0'') None None 30 [] = None"
    using run [THEN conjunct2, THEN conjunct2]
    by (simp add: example_server_def example_details_def incomplete_execution_statuses_def)
  from one ret never whole show ?thesis by simp
qed

subsection \<open>The latest commit of a branch\<close>

lemma find_latest_commit_first:
  "i < length cs \<Longrightarrow> commit_repository (cs ! i) = rid \<and> commit_ref (cs ! i) = branch \<Longrightarrow>
   \<forall>j<i. \<not> (commit_repository (cs ! j) = rid \<and> commit_ref (cs ! j) = branch) \<Longrightarrow>
   find_latest_commit cs rid branch = commit_identifier (cs ! i)"
proof (induction cs arbitrary: i)
  case Nil
  then show ?case by simp
next
  case (Cons c cs)
  show ?case
  proof (cases i)
    case 0
    with Cons.prems show ?thesis by simp
  next
    case (Suc k)
    with Cons.prems have "\<not> (commit_repository c = rid \<and> commit_ref c = branch)" by auto
    moreover have "find_latest_commit cs rid branch = commit_identifier (cs ! k)"
      using Cons.prems Suc by (intro Cons.IH) auto
    ultimately show ?thesis using Suc by auto
  qed
qed

lemma find_latest_commit_none:
  "\<forall>c\<in>set cs. \<not> (commit_repository c = rid \<and> commit_ref c = branch) \<Longrightarrow>
   find_latest_commit cs rid branch = PyNone"
  by (induction cs) auto

lemma get_repository_id_result:
  "headers h = Some hs \<Longrightarrow>
   get_repository_id h srv pid tr =
     (Inr (find_repository_id (repositories_results srv) pid),
      tr @ [Request GET (host h) LIST_REPOSITORIES_ENDPOINT hs
              (Params [(''limit'', PyInt 10000)])])"
  by (simp add: get_repository_id_def get_headers_def)

lemma get_latest_commit_result:
  "headers h = Some hs \<Longrightarrow>
   get_latest_commit h srv pid branch tr =
     (Inr (find_latest_commit (commits_results srv)
             (find_repository_id (repositories_results srv) pid) branch),
      tr @ [Request GET (host h) LIST_REPOSITORIES_ENDPOINT hs
              (Params [(''limit'', PyInt 10000)]),
            Request GET (host h) LIST_COMMITS_ENDPOINT hs
              (Params [(''limit'', PyInt 10000), (''ordering'', PyStr ''-commit_time'')])])"
  by (simp add: get_latest_commit_def get_repository_id_result get_headers_def)

text \<open>
  C7. For every commit listing, project and branch, \<^verbatim>\<open>get_latest_commit\<close> returns the
  identifier of the first commit of the listing whose repository equals the repository id
  resolved for the project and whose ref equals the branch, and \<^verbatim>\<open>None\<close> when no commit
  matches both; the listing is requested ordered by commit time, descending.
\<close>

theorem get_latest_commit_first_match:
  assumes "headers h = Some hs"
    and "fst (get_repository_id h srv pid tr) = Inr rid"
  shows "(\<forall>i<length (commits_results srv).
            (commit_repository (commits_results srv ! i) = rid \<and>
             commit_ref (commits_results srv ! i) = branch) \<and>
            (\<forall>j<i. \<not> (commit_repository (commits_results srv ! j) = rid \<and>
                       commit_ref (commits_results srv ! j) = branch)) \<longrightarrow>
            fst (get_latest_commit h srv pid branch tr) =
              Inr (commit_identifier (commits_results srv ! i))) \<and>
         ((\<forall>c\<in>set (commits_results srv).
             \<not> (commit_repository c = rid \<and> commit_ref c = branch)) \<longrightarrow>
            fst (get_latest_commit h srv pid branch tr) = Inr PyNone) \<and>
         last (snd (get_latest_commit h srv pid branch tr)) =
           Request GET (host h) LIST_COMMITS_ENDPOINT hs
             (Params [(''limit'', PyInt 10000), (''ordering'', PyStr ''-commit_time'')])"
proof -
  from assms have rid: "find_repository_id (repositories_results srv) pid = rid"
    by (simp add: get_repository_id_result)
  show ?thesis
    using assms(1) rid
    by (simp add: get_latest_commit_result find_latest_commit_first find_latest_commit_none)
qed

text \<open>
  Project 2 has repository 8, whose first commit on master in the listing is c2; it has
  no commit on release.
\<close>

theorem get_latest_commit_first_match_witness:
  "fst (get_latest_commit example_hook (example_server (\<lambda>n. ''complete'')) (PyInt 2)
          ''master'' []) = Inr (PyStr ''c2'') \<and>
   fst (get_latest_commit example_hook (example_server (\<lambda>n. ''complete'')) (PyInt 2)
          ''release'' []) = Inr PyNone"
proof -
  let ?hs = "[(''Authorization'', ''Token secret'')]"
  let ?srv = "example_server (\<lambda>n. ''complete'')"
  have h: "headers example_hook = Some ?hs" by (simp add: example_hook_def)
  have rid: "fst (get_repository_id example_hook ?srv (PyInt 2) []) = Inr (PyInt 8)"
    by (simp add: get_repository_id_result[OF h] example_server_def)
  have found: "fst (get_latest_commit example_hook ?srv (PyInt 2) ''master'' []) =
      Inr (PyStr ''c2'')"
    using get_latest_commit_first_match [OF h rid, of "''master''", THEN conjunct1,
        rule_format, of 2]
    by (simp add: example_server_def less_Suc_eq numeral_2_eq_2)
  have absent: "fst (get_latest_commit example_hook ?srv (PyInt 2) ''release'' []) =
      Inr PyNone"
    using get_latest_commit_first_match [OF h rid, of "''release''", THEN conjunct2,
        THEN conjunct1]
    by (simp add: example_server_def)
  from found absent show ?thesis by simp
qed

subsection \<open>A connection without a token\<close>

text \<open>
  C9. If the extra data of the connection has no key \<^verbatim>\<open>token\<close>, the constructor leaves
  the attribute \<^verbatim>\<open>headers\<close> unset, and each of the seven API operations then raises
  \<^verbatim>\<open>AttributeError\<close> with the trace unchanged: no request is issued.
\<close>

theorem no_token_attribute_error:
  assumes "''token'' \<notin> dom (extra_dejson conn)"
    and "ValohaiHook_init conn tr0 = (h, tr1)"
  shows "headers h = None \<and> tr1 = tr0 \<and>
         get_project_id h srv name tr = (Inl (AttributeError ''headers''), tr) \<and>
         get_repository_id h srv pid tr = (Inl (AttributeError ''headers''), tr) \<and>
         fetch_repository h srv pid tr = (Inl (AttributeError ''headers''), tr) \<and>
         get_latest_commit h srv pid b tr = (Inl (AttributeError ''headers''), tr) \<and>
         get_execution_details h srv eid n tr = (Inl (AttributeError ''headers''), tr) \<and>
         add_execution_tags h srv ts eid tr = (Inl (AttributeError ''headers''), tr) \<and>
         submit_execution h srv name step inputs parameters environment commit branch tags
           period tr =
           Some (Inl (AttributeError ''headers''), h\<lparr>polling_period_seconds := Some period\<rparr>, tr)"
proof -
  from assms have none: "headers h = None" and same: "tr1 = tr0"
    by (auto simp: ValohaiHook_init_def dom_def split: option.splits)
  have raise: "get_headers h = Inl (AttributeError ''headers'')"
    and raise1: "get_headers (h\<lparr>polling_period_seconds := Some period\<rparr>) =
      Inl (AttributeError ''headers'')"
    using none by (simp_all add: get_headers_def)
  have sub: "submit_execution h srv name step inputs parameters environment commit branch tags
           period tr =
           Some (Inl (AttributeError ''headers''), h\<lparr>polling_period_seconds := Some period\<rparr>, tr)"
    by (simp add: submit_execution_def submit_execution_start_def get_project_id_def raise1
        Let_def)
  show ?thesis
    using none same sub
    by (simp add: get_project_id_def get_repository_id_def fetch_repository_def
        get_latest_commit_def get_execution_details_def add_execution_tags_def raise)
qed

text \<open>A connection with no extra data.\<close>

theorem no_token_attribute_error_witness:
  "submit_execution
     (fst (ValohaiHook_init \<lparr>conn_host = ''app.valohai.com'', extra_dejson = Map.empty\<rparr> []))
     (example_server (\<lambda>n. ''complete''))
     ''b'' ''train'' [] [] PyNone (PyStr ''c0'') None None 30 [] =
   Some (Inl (AttributeError ''headers''),
         \<lparr>host = ''app.valohai.com'', headers = None, polling_period_seconds = Some 30\<rparr>, []) \<and>
   get_project_id
     (fst (ValohaiHook_init \<lparr>conn_host = ''app.valohai.com'', extra_dejson = Map.empty\<rparr> []))
     (example_server (\<lambda>n. ''complete'')) ''b'' [] = (Inl (AttributeError ''headers''), [])"
proof -
  let ?conn = "\<lparr>conn_host = ''app.valohai.com'', extra_dejson = Map.empty\<rparr>"
  have no: "''token'' \<notin> dom (extra_dejson ?conn)" by simp
  have init: "ValohaiHook_init ?conn [] =
    (\<lparr>host = ''app.valohai.com'', headers = None, polling_period_seconds = None\<rparr>, [])"
    by (simp add: ValohaiHook_init_def)
  show ?thesis
    using no_token_attribute_error [OF no init,
        of "example_server (\<lambda>n. ''complete'')" "''b''" "[]" PyNone "''x''" PyNone 0 "[]"
          "''train''" "[]" "[]" PyNone "PyStr ''c0''" None None 30]
    by (simp add: init)
qed

subsection \<open>Downloading outputs\<close>

lemma downloads_append: "downloads (xs @ ys) = downloads xs @ downloads ys"
  by (simp add: downloads_def map_filter_def)

lemma ignored_append: "ignored (xs @ ys) = ignored xs @ ignored ys"
  by (simp add: ignored_def map_filter_def)

lemma downloads_events [simp]:
  "downloads [] = []"
  "downloads (Urlretrieve u t # es) = (u, t) # downloads es"
  "downloads (LogInfo m # es) = downloads es"
  by (simp_all add: downloads_def map_filter_def retrieved_def)

lemma ignored_events [simp]:
  "ignored [] = []"
  "ignored (Urlretrieve u t # es) = ignored es"
  "ignored (LogInfo (IgnoreOutput name p) # es) = name # ignored es"
  "ignored (LogInfo (DownloadedOutput name) # es) = ignored es"
  by (simp_all add: ignored_def map_filter_def ignored_name_def)

lemma download_loop_all:
  "\<not> truthy pattern \<Longrightarrow>
   \<exists>tr1. download_loop re_match path pattern outs tr = (Inr (), tr1) \<and>
     downloads tr1 = downloads tr @
       map (\<lambda>out. (output_url out, os_path_join path (output_name out))) outs \<and>
     ignored tr1 = ignored tr"
proof (induction outs arbitrary: tr)
  case Nil
  then show ?case by simp
next
  case (Cons out outs)
  let ?tr = "tr @ [Urlretrieve (output_url out) (os_path_join path (output_name out)),
                   LogInfo (DownloadedOutput (output_name out))]"
  from Cons.IH[OF Cons.prems, of ?tr] show ?case
    using Cons.prems by (simp add: downloads_append ignored_append)
qed

lemma download_loop_matching:
  "truthy pattern \<Longrightarrow> \<forall>out\<in>set outs. \<exists>b. re_match (the pattern) (output_name out) = Inr b \<Longrightarrow>
   \<exists>tr1. download_loop re_match path pattern outs tr = (Inr (), tr1) \<and>
     downloads tr1 = downloads tr @
       map (\<lambda>out. (output_url out, os_path_join path (output_name out)))
         (filter (\<lambda>out. re_match (the pattern) (output_name out) = Inr True) outs) \<and>
     ignored tr1 = ignored tr @
       map output_name
         (filter (\<lambda>out. re_match (the pattern) (output_name out) = Inr False) outs)"
proof (induction outs arbitrary: tr)
  case Nil
  then show ?case by simp
next
  case (Cons out outs)
  from Cons.prems obtain b where b: "re_match (the pattern) (output_name out) = Inr b"
    by auto
  from Cons.prems have rest:
    "\<forall>out\<in>set outs. \<exists>b. re_match (the pattern) (output_name out) = Inr b" by simp
  show ?case
  proof (cases b)
    case True
    let ?tr = "tr @ [Urlretrieve (output_url out) (os_path_join path (output_name out)),
                     LogInfo (DownloadedOutput (output_name out))]"
    from Cons.IH[OF Cons.prems(1) rest, of ?tr] show ?thesis
      using Cons.prems(1) b True by (simp add: downloads_append ignored_append)
  next
    case False
    let ?tr = "tr @ [LogInfo (IgnoreOutput (output_name out) (the pattern))]"
    from Cons.IH[OF Cons.prems(1) rest, of ?tr] show ?thesis
      using Cons.prems(1) b False by (simp add: downloads_append ignored_append)
  qed
qed

text \<open>
  C8, amended. For every list of outputs and every non-empty pattern that \<^verbatim>\<open>re.match\<close>
  accepts (it gives a verdict for the name of every output and does not raise),
  \<^verbatim>\<open>download_execution_outputs\<close> retrieves exactly the outputs whose name matches, in
  order, and logs the others as ignored; with no pattern it retrieves every output and
  ignores none.
\<close>

theorem download_execution_outputs_matching:
  assumes "xcom_pull task_id = Some details"
  shows "(p \<noteq> [] \<and> (\<forall>out\<in>set (outputs details). \<exists>b. re_match p (output_name out) = Inr b) \<longrightarrow>
            (\<exists>tr1. download_execution_outputs re_match xcom_pull task_id path (Some p) tr =
                     (Inr (), tr1) \<and>
               downloads tr1 = downloads tr @
                 map (\<lambda>out. (output_url out, os_path_join path (output_name out)))
                   (filter (\<lambda>out. re_match p (output_name out) = Inr True) (outputs details)) \<and>
               ignored tr1 = ignored tr @
                 map output_name
                   (filter (\<lambda>out. re_match p (output_name out) = Inr False)
                      (outputs details)))) \<and>
         (\<exists>tr1. download_execution_outputs re_match xcom_pull task_id path None tr =
                  (Inr (), tr1) \<and>
            downloads tr1 = downloads tr @
              map (\<lambda>out. (output_url out, os_path_join path (output_name out)))
                (outputs details) \<and>
            ignored tr1 = ignored tr)"
proof (intro conjI impI)
  assume "p \<noteq> [] \<and> (\<forall>out\<in>set (outputs details). \<exists>b. re_match p (output_name out) = Inr b)"
  then have t: "truthy (Some p)"
    and ok: "\<forall>out\<in>set (outputs details). \<exists>b. re_match (the (Some p)) (output_name out) = Inr b"
    by (simp_all add: truthy_def)
  from download_loop_matching[of "Some p" "outputs details" re_match path tr, OF t ok]
  show "\<exists>tr1. download_execution_outputs re_match xcom_pull task_id path (Some p) tr =
                     (Inr (), tr1) \<and>
               downloads tr1 = downloads tr @
                 map (\<lambda>out. (output_url out, os_path_join path (output_name out)))
                   (filter (\<lambda>out. re_match p (output_name out) = Inr True) (outputs details)) \<and>
               ignored tr1 = ignored tr @
                 map output_name
                   (filter (\<lambda>out. re_match p (output_name out) = Inr False)
                      (outputs details))"
    using assms by (simp add: download_execution_outputs_def)
next
  have "\<not> truthy (None :: string option)" by (simp add: truthy_def)
  from download_loop_all[OF this, of re_match path "outputs details" tr]
  show "\<exists>tr1. download_execution_outputs re_match xcom_pull task_id path None tr =
                  (Inr (), tr1) \<and>
            downloads tr1 = downloads tr @
              map (\<lambda>out. (output_url out, os_path_join path (output_name out)))
                (outputs details) \<and>
            ignored tr1 = ignored tr"
    using assms by (simp add: download_execution_outputs_def)
qed

text \<open>
  The example of the specification: with the pattern \<^verbatim>\<open>^model\<close> and the outputs
  \<^verbatim>\<open>model.pkl\<close> and \<^verbatim>\<open>log.txt\<close>, only \<^verbatim>\<open>model.pkl\<close> is retrieved.
\<close>

theorem download_execution_outputs_matching_witness:
  "\<exists>tr1. download_execution_outputs example_re_match
            (\<lambda>t. if t = ''train'' then Some (example_details ''complete'') else None)
            ''train'' ''/tmp/out'' (Some ''^model'') [] = (Inr (), tr1) \<and>
     downloads tr1 = [(''https://s3/model.pkl'', ''/tmp/out/model.pkl'')] \<and>
     ignored tr1 = [''log.txt'']"
proof -
  let ?xcom = "\<lambda>t. if t = ''train'' then Some (example_details ''complete'') else None"
  have x: "?xcom ''train'' = Some (example_details ''complete'')" by simp
  show ?thesis
    using download_execution_outputs_matching [of ?xcom "''train''" "example_details ''complete''"
        "''^model''" example_re_match "''/tmp/out''" "[]", OF x, THEN conjunct1]
    by (simp add: example_details_def example_outputs_def example_re_match_def os_path_join_def)
qed

text \<open>
  Without the condition on the pattern the statement fails. The pattern \<^verbatim>\<open>*model\<close> is not
  empty and does not compile: \<^verbatim>\<open>re.match\<close> raises at the first output, so the call
  raises \<^verbatim>\<open>re.error\<close>, retrieves nothing and logs nothing, although no output name
  matches and both should have been logged as ignored.
\<close>

theorem download_execution_outputs_bad_pattern:
  "download_execution_outputs example_re_match example_xcom_pull ''train'' ''/tmp/out''
     (Some ''*model'') [] = (Inl ReError, []) \<and>
   ignored (snd (download_execution_outputs example_re_match example_xcom_pull ''train''
     ''/tmp/out'' (Some ''*model'') [])) \<noteq> map output_name example_outputs"
  by (simp add: download_execution_outputs_def example_xcom_pull_def example_details_def
      example_outputs_def example_re_match_def truthy_def)

text \<open>
  C10. With the empty string as pattern \<^verbatim>\<open>download_execution_outputs\<close> does what it
  does with no pattern, whatever the regular expression engine: every output of the
  execution details is retrieved and none is ignored.
\<close>

theorem download_empty_pattern_is_no_pattern:
  "download_execution_outputs re_match xcom_pull task_id path (Some []) tr =
     download_execution_outputs re_match xcom_pull task_id path None tr \<and>
   (case xcom_pull task_id of
      None \<Rightarrow> True
    | Some details \<Rightarrow>
        (\<exists>tr1. download_execution_outputs re_match xcom_pull task_id path (Some []) tr =
                 (Inr (), tr1) \<and>
           downloads tr1 = downloads tr @
             map (\<lambda>out. (output_url out, os_path_join path (output_name out)))
               (outputs details) \<and>
           ignored tr1 = ignored tr))"
proof -
  have same: "download_loop re_match path (Some []) outs tr0 =
      download_loop re_match path None outs tr0" for outs tr0
    by (induction outs arbitrary: tr0) (simp_all add: truthy_def)
  have eq: "download_execution_outputs re_match xcom_pull task_id path (Some []) tr =
     download_execution_outputs re_match xcom_pull task_id path None tr"
    by (simp add: download_execution_outputs_def same split: option.splits)
  have nt: "\<not> truthy (Some ([] :: string))" by (simp add: truthy_def)
  show ?thesis
  proof (cases "xcom_pull task_id")
    case None
    with eq show ?thesis by simp
  next
    case (Some details)
    from download_loop_all[OF nt, of re_match path "outputs details" tr] eq Some
    show ?thesis by (simp add: download_execution_outputs_def)
  qed
qed

text \<open>Both outputs of the example are retrieved.\<close>

theorem download_empty_pattern_is_no_pattern_witness:
  "download_execution_outputs example_re_match
     (\<lambda>t. if t = ''train'' then Some (example_details ''complete'') else None)
     ''train'' ''/tmp/out'' (Some []) [] =
   download_execution_outputs example_re_match
     (\<lambda>t. if t = ''train'' then Some (example_details ''complete'') else None)
     ''train'' ''/tmp/out'' None [] \<and>
   (\<exists>tr1. download_execution_outputs example_re_match
            (\<lambda>t. if t = ''train'' then Some (example_details ''complete'') else None)
            ''train'' ''/tmp/out'' (Some []) [] = (Inr (), tr1) \<and>
      downloads tr1 = [(''https://s3/model.pkl'', ''/tmp/out/model.pkl''),
                       (''https://s3/log.txt'', ''/tmp/out/log.txt'')] \<and>
      ignored tr1 = [])"
proof -
  let ?xcom = "\<lambda>t. if t = ''train'' then Some (example_details ''complete'') else None"
  note run = download_empty_pattern_is_no_pattern [of example_re_match ?xcom
      "''train''" "''/tmp/out''" "[]"]
  have same: "download_execution_outputs example_re_match ?xcom ''train'' ''/tmp/out''
                (Some []) [] =
              download_execution_outputs example_re_match ?xcom ''train'' ''/tmp/out'' None []"
    using run [THEN conjunct1] .
  have every: "\<exists>tr1. download_execution_outputs example_re_match ?xcom ''train'' ''/tmp/out''
                       (Some []) [] = (Inr (), tr1) \<and>
      downloads tr1 = [(''https://s3/model.pkl'', ''/tmp/out/model.pkl''),
                       (''https://s3/log.txt'', ''/tmp/out/log.txt'')] \<and>
      ignored tr1 = []"
    using run [THEN conjunct2]
    by (simp add: example_details_def example_outputs_def os_path_join_def)
  from same every show ?thesis by (rule conjI)
qed

subsection \<open>The commit of a submission\<close>

lemma posted_payloads_append:
  "posted_payloads (xs @ ys) = posted_payloads xs @ posted_payloads ys"
  by (simp add: posted_payloads_def map_filter_def)

lemma requests_of_append: "requests_of (xs @ ys) = requests_of xs @ requests_of ys"
  by (simp add: requests_of_def map_filter_def)

lemma posted_payloads_events [simp]:
  "posted_payloads [] = []"
  "posted_payloads (Request GET hst ep hs b # es) = posted_payloads es"
  "posted_payloads (Request POST hst SUBMIT_EXECUTION_ENDPOINT hs (JsonPayload pl) # es) =
     pl # posted_payloads es"
  "posted_payloads (Request POST hst (FETCH_REPOSITORY_ENDPOINT pid) hs b # es) =
     posted_payloads es"
  "posted_payloads (Request POST hst (SET_EXECUTION_TAGS_ENDPOINT eid) hs b # es) =
     posted_payloads es"
  "posted_payloads (Sleep t # es) = posted_payloads es"
  "posted_payloads (LogInfo m # es) = posted_payloads es"
  by (simp_all add: posted_payloads_def map_filter_def posted_payload_def)

lemma requests_of_events [simp]:
  "requests_of [] = []"
  "requests_of (Request m hst ep hs b # es) = (m, ep) # requests_of es"
  "requests_of (Sleep t # es) = requests_of es"
  "requests_of (LogInfo msg # es) = requests_of es"
  by (simp_all add: requests_of_def map_filter_def request_of_def)

lemma submit_execution_start_trace:
  assumes "headers h = Some hs"
  shows "snd (snd (submit_execution_start h srv name step inputs parameters environment commit
                     branch tags period tr)) =
     (let pid = find_project_id (projects_results srv) name;
          latest = find_latest_commit (commits_results srv)
                     (find_repository_id (repositories_results srv) pid) (the branch)
      in tr @ [Request GET (host h) LIST_PROJECTS_ENDPOINT hs (Params [(''limit'', PyInt 10000)])] @
         (if truthy branch then
            [Request POST (host h) (FETCH_REPOSITORY_ENDPOINT pid) hs NoBody,
             LogInfo (FetchedLatestCommits (fetch_answer srv)),
             Request GET (host h) LIST_REPOSITORIES_ENDPOINT hs
               (Params [(''limit'', PyInt 10000)]),
             Request GET (host h) LIST_COMMITS_ENDPOINT hs
               (Params [(''limit'', PyInt 10000), (''ordering'', PyStr ''-commit_time'')]),
             LogInfo (UsingLatestCommit (the branch) latest)]
          else []) @
         [Request POST (host h) SUBMIT_EXECUTION_ENDPOINT hs
            (JsonPayload
               \<lparr>payload_project = pid,
                payload_commit = (if truthy branch then latest else commit),
                payload_step = step, payload_inputs = inputs,
                payload_parameters = parameters, payload_environment = environment\<rparr>),
          LogInfo (GotResponse (submit_answer srv)),
          LogInfo (StartedExecution (created_display (submit_answer srv)))] @
         (if truthy tags then
            [Request POST (host h) (SET_EXECUTION_TAGS_ENDPOINT (created_id (submit_answer srv)))
               hs (JsonTags (the tags)),
             LogInfo (AddedExecutionTags (the tags))]
          else []))"
  using assms
  by (simp add: submit_execution_start_def get_project_id_def fetch_repository_def
      get_latest_commit_def get_repository_id_def add_execution_tags_def get_headers_def Let_def)

lemma poll_iteration_posted:
  "poll_iteration h srv eid period n tr = (out, tr1) \<Longrightarrow>
   posted_payloads tr1 = posted_payloads tr"
  by (auto simp: poll_iteration_def get_execution_details_def get_headers_def Let_def
      posted_payloads_append split: if_splits option.splits)

lemma poll_loop_posted:
  assumes "poll_loop h srv eid period n tr = Some y"
  shows "posted_payloads (snd y) = posted_payloads tr"
  using assms
proof (induction rule: poll_loop.raw_induct[rotated 1, consumes 1])
  case (1 loop h srv eid period n tr y)
  show ?case
  proof (cases "poll_iteration h srv eid period n tr")
    case (Pair out tr1)
    from poll_iteration_posted[OF Pair] have keep: "posted_payloads tr1 = posted_payloads tr" .
    show ?thesis
    proof (cases out)
      case Continue
      with 1 Pair have "posted_payloads (snd y) = posted_payloads tr1" by simp
      with keep show ?thesis by simp
    next
      case (Raise e)
      with 1(2) Pair keep show ?thesis by auto
    next
      case (Return d)
      with 1(2) Pair keep show ?thesis by auto
    qed
  qed
qed

lemma submit_execution_posted:
  assumes "submit_execution h srv name step inputs parameters environment commit branch tags
             period tr = Some (res, h2, tr2)"
  shows "posted_payloads tr2 =
         posted_payloads (snd (snd (submit_execution_start h srv name step inputs parameters
           environment commit branch tags period tr)))"
proof (cases "submit_execution_start h srv name step inputs parameters environment commit
                branch tags period tr")
  case (fields r h1 tr1)
  show ?thesis
  proof (cases r)
    case (Inl e)
    with assms fields show ?thesis by (simp add: submit_execution_def)
  next
    case (Inr eid)
    with assms fields obtain y where
      y: "poll_loop h1 srv eid period 0 tr1 = Some y" and "snd y = tr2"
      by (auto simp: submit_execution_def)
    with poll_loop_posted[OF y] fields show ?thesis by simp
  qed
qed

text \<open>
  C5. \<^verbatim>\<open>submit_execution\<close> POSTs one execution payload, before the poll loop. If a
  non-empty branch is given, the commit of the payload is what \<^verbatim>\<open>get_latest_commit\<close>
  resolves for the branch, whatever the commit argument, and the repository fetch is
  requested before the commit listing; if no branch is given (or an empty one), the commit
  of the payload is the commit argument. A run that returns has POSTed this payload and no
  other.
\<close>

theorem submit_execution_commit:
  assumes "headers h = Some hs"
  shows "\<exists>pl. posted_payloads (snd (snd (submit_execution_start h srv name step inputs
                 parameters environment commit branch tags period tr))) =
                 posted_payloads tr @ [pl] \<and>
           (\<forall>res h2 tr2.
              submit_execution h srv name step inputs parameters environment commit branch tags
                period tr = Some (res, h2, tr2) \<longrightarrow>
              posted_payloads tr2 = posted_payloads tr @ [pl]) \<and>
           (truthy branch \<longrightarrow>
              fst (get_latest_commit h srv (find_project_id (projects_results srv) name)
                     (the branch) tr) = Inr (payload_commit pl) \<and>
              requests_of (snd (snd (submit_execution_start h srv name step inputs
                 parameters environment commit branch tags period tr))) =
                requests_of tr @
                [(GET, LIST_PROJECTS_ENDPOINT),
                 (POST, FETCH_REPOSITORY_ENDPOINT (find_project_id (projects_results srv) name)),
                 (GET, LIST_REPOSITORIES_ENDPOINT),
                 (GET, LIST_COMMITS_ENDPOINT),
                 (POST, SUBMIT_EXECUTION_ENDPOINT)] @
                (if truthy tags
                 then [(POST, SET_EXECUTION_TAGS_ENDPOINT (created_id (submit_answer srv)))]
                 else [])) \<and>
           (\<not> truthy branch \<longrightarrow> payload_commit pl = commit)"
proof -
  let ?pid = "find_project_id (projects_results srv) name"
  let ?latest = "find_latest_commit (commits_results srv)
                   (find_repository_id (repositories_results srv) ?pid) (the branch)"
  let ?pl = "\<lparr>payload_project = ?pid,
              payload_commit = (if truthy branch then ?latest else commit),
              payload_step = step, payload_inputs = inputs,
              payload_parameters = parameters, payload_environment = environment\<rparr>"
  let ?tr1 = "snd (snd (submit_execution_start h srv name step inputs parameters environment
                commit branch tags period tr))"
  note trace = submit_execution_start_trace[OF assms, of srv name step inputs parameters
      environment commit branch tags period tr]
  have posted: "posted_payloads ?tr1 = posted_payloads tr @ [?pl]"
    unfolding trace by (simp add: Let_def posted_payloads_append)
  have whole: "\<forall>res h2 tr2.
      submit_execution h srv name step inputs parameters environment commit branch tags
        period tr = Some (res, h2, tr2) \<longrightarrow>
      posted_payloads tr2 = posted_payloads tr @ [?pl]"
    using submit_execution_posted posted by metis
  have latest: "fst (get_latest_commit h srv ?pid (the branch) tr) = Inr ?latest"
    using assms
    by (simp add: get_latest_commit_def get_repository_id_def get_headers_def)
  have reqs: "truthy branch \<Longrightarrow> requests_of ?tr1 =
      requests_of tr @
      [(GET, LIST_PROJECTS_ENDPOINT), (POST, FETCH_REPOSITORY_ENDPOINT ?pid),
       (GET, LIST_REPOSITORIES_ENDPOINT), (GET, LIST_COMMITS_ENDPOINT),
       (POST, SUBMIT_EXECUTION_ENDPOINT)] @
      (if truthy tags
       then [(POST, SET_EXECUTION_TAGS_ENDPOINT (created_id (submit_answer srv)))]
       else [])"
    unfolding trace by (simp add: Let_def requests_of_append)
  show ?thesis
    using posted whole latest reqs by (intro exI[of _ ?pl]) simp
qed

text \<open>
  With the branch master the commit argument c0 is replaced by c2, the latest commit of
  the project's repository on master; with no branch c0 is posted.
\<close>

theorem submit_execution_commit_witness:
  "(\<exists>pl. posted_payloads (snd (snd (submit_execution_start example_hook
             (example_server (\<lambda>n. ''complete'')) ''b'' ''train'' [] [] PyNone (PyStr ''c0'')
             (Some ''master'') None 30 []))) = [pl] \<and>
          payload_commit pl = PyStr ''c2'') \<and>
   (\<exists>pl. posted_payloads (snd (snd (submit_execution_start example_hook
             (example_server (\<lambda>n. ''complete'')) ''b'' ''train'' [] [] PyNone (PyStr ''c0'')
             None None 30 []))) = [pl] \<and>
          payload_commit pl = PyStr ''c0'')"
proof -
  let ?srv = "example_server (\<lambda>n. ''complete'')"
  have h: "headers example_hook = Some [(''Authorization'', ''Token secret'')]"
    by (simp add: example_hook_def)
  have latest: "fst (get_latest_commit example_hook ?srv
      (find_project_id (projects_results ?srv) ''b'') ''master'' []) = Inr (PyStr ''c2'')"
    using h
    by (simp add: get_latest_commit_def get_repository_id_def get_headers_def
        example_server_def)
  have with_branch: "\<exists>pl. posted_payloads (snd (snd (submit_execution_start example_hook
             ?srv ''b'' ''train'' [] [] PyNone (PyStr ''c0'') (Some ''master'') None 30 []))) =
             [pl] \<and> payload_commit pl = PyStr ''c2''"
    using submit_execution_commit [OF h, of ?srv "''b''" "''train''" "[]" "[]" PyNone
        "PyStr ''c0''" "Some ''master''" None 30 "[]"] latest
    by (auto simp: truthy_def)
  have no_branch: "\<exists>pl. posted_payloads (snd (snd (submit_execution_start example_hook
             ?srv ''b'' ''train'' [] [] PyNone (PyStr ''c0'') None None 30 []))) =
             [pl] \<and> payload_commit pl = PyStr ''c0''"
    using submit_execution_commit [OF h, of ?srv "''b''" "''train''" "[]" "[]" PyNone
        "PyStr ''c0''" None None 30 "[]"]
    by (auto simp: truthy_def)
  from with_branch no_branch show ?thesis by (rule conjI)
qed

end
